theory Spec2Isabelle
  imports Main
begin

section \<open>The QUIC transport of go-libp2p-quic-transport (transport.go)\<close>

text \<open>
  A shallow embedding of \<^verbatim>\<open>transport.go\<close>: the socket pool \<^verbatim>\<open>connManager\<close>, the
  \<^verbatim>\<open>transport\<close> with \<^verbatim>\<open>Dial\<close>, \<^verbatim>\<open>CanDial\<close>, \<^verbatim>\<open>Proxy\<close> and \<^verbatim>\<open>Protocols\<close>, and the
  certificate check that \<^verbatim>\<open>Dial\<close> installs on its copy of the TLS configuration.

  Go returns pairs \<^verbatim>\<open>(value, error)\<close>. Where the value returned next to an error is
  observable (the socket pool stores it), the model keeps the pair; elsewhere a sum
  \<open>error + 'a\<close> is used, \<open>Inl\<close> being the error. A run-time panic is a value of the error
  type as well. The functions of other packages (net, manet, x509, peer, mafmt, quic-go)
  and the functions of this package that live in other files are fields of the record
  \<open>extern\<close>: every theorem holds for all of them. The operating system and the network
  are a state of an arbitrary type \<open>'w\<close> that these functions read and change.
  The mutex of the pool is not modelled: calls are sequential here.
\<close>

subsection \<open>Data\<close>

type_synonym bytes = "nat list"

datatype error = errorString string | panic string

datatype Multiaddr = Multiaddr string
datatype UDPAddr = UDPAddr string
datatype Certificate = Certificate bytes
datatype PubKey = PubKey bytes
datatype PrivKey = PrivKey bytes
datatype Context = Context nat

type_synonym peer_ID = string

text \<open>
  A value of the interface type \<^verbatim>\<open>net.PacketConn\<close> is either the nil interface or holds a
  \<^verbatim>\<open>*net.UDPConn\<close>, which is itself a pointer and may be nil (\<open>None\<close>). In Go the second
  kind of value differs from \<^verbatim>\<open>nil\<close> even when the pointer in it is nil.
\<close>

datatype PacketConn = nil | UDPConn "nat option"

record connManager =
  connIPv4 :: PacketConn
  connIPv6 :: PacketConn

record Session =
  LocalAddr :: UDPAddr
  session_id :: nat

text \<open>
  The callback of a \<^verbatim>\<open>tls.Config\<close>. The closure built by \<^verbatim>\<open>Dial\<close> writes the local
  variable \<^verbatim>\<open>remotePubKey\<close>; the variable is passed in and returned.
\<close>

type_synonym verify_fn = "bytes list \<Rightarrow> PubKey option \<Rightarrow> error option \<times> PubKey option"

record tls_Config =
  Certificates :: "bytes list"
  VerifyPeerCertificate :: "verify_fn option"

record quic_Config =
  MaxIncomingStreams :: int
  MaxIncomingUniStreams :: int
  MaxReceiveStreamFlowControlWindow :: int
  MaxReceiveConnectionFlowControlWindow :: int
  AcceptToken :: "UDPAddr \<Rightarrow> bytes option \<Rightarrow> bool"
  KeepAlive :: bool

text \<open>
  What the remote party and the network do in one handshake: the attempt ends before a
  certificate chain arrives (network error, timeout, cancelled context), or the remote
  presents a chain of raw certificates and, if that chain is accepted, the attempt ends
  with the given result.
\<close>

datatype handshake = Aborted error | Presented "bytes list" "error + Session"

record 'w extern =
  ResolveUDPAddr :: "string \<Rightarrow> string \<Rightarrow> error + UDPAddr"
  ListenUDP :: "string \<Rightarrow> UDPAddr \<Rightarrow> 'w \<Rightarrow> (nat option \<times> error option) \<times> 'w"
  DialArgs :: "Multiaddr \<Rightarrow> error + (string \<times> string)"
  fromQuicMultiaddr :: "Multiaddr \<Rightarrow> error + UDPAddr"
  toQuicMultiaddr :: "UDPAddr \<Rightarrow> error + Multiaddr"
  ParseCertificate :: "bytes \<Rightarrow> error + Certificate"
  getRemotePubKey :: "Certificate list \<Rightarrow> error + PubKey"
  IDFromPublicKey :: "PubKey \<Rightarrow> error + peer_ID"
  QUIC_Matches :: "Multiaddr \<Rightarrow> bool"
  quic_handshake ::
    "Context \<Rightarrow> PacketConn \<Rightarrow> UDPAddr \<Rightarrow> string \<Rightarrow> quic_Config \<Rightarrow> 'w \<Rightarrow> handshake \<times> 'w"

text \<open>
  The struct \<^verbatim>\<open>transport\<close>. The field \<^verbatim>\<open>tlsConf\<close> is a pointer: an index into the store of
  configurations, \<open>None\<close> for the nil pointer. The pool is allocated by \<^verbatim>\<open>NewTransport\<close>
  and reachable through the transport only, so it is kept in the field itself.
\<close>

record transport =
  privKey :: PrivKey
  localPeer :: peer_ID
  tlsConf :: "nat option"
  connManager :: connManager

text \<open>
  The state a call works on: the transport the receiver points to, the store of
  \<^verbatim>\<open>tls.Config\<close> objects, the sessions that the engine has established and that nobody
  has closed, and the outside world.
\<close>

record 'w machine =
  this :: transport
  configs :: "tls_Config list"
  sessions :: "Session list"
  os :: 'w

subsection \<open>The socket pool\<close>

text \<open>
  \<^verbatim>\<open>createConn\<close> returns the two results of \<^verbatim>\<open>net.ListenUDP\<close>, whose first result has
  the static type \<^verbatim>\<open>*net.UDPConn\<close>: the conversion to \<^verbatim>\<open>net.PacketConn\<close> wraps the
  pointer, whatever its value.
\<close>

definition createConn ::
  "'w extern \<Rightarrow> string \<Rightarrow> string \<Rightarrow> 'w \<Rightarrow> (PacketConn \<times> error option) \<times> 'w" where
  "createConn env network host w =
     (case ResolveUDPAddr env network host of
        Inl err \<Rightarrow> ((nil, Some err), w)
      | Inr addr \<Rightarrow>
          (case ListenUDP env network addr w of
             ((ptr, err), w') \<Rightarrow> ((UDPConn ptr, err), w')))"

definition GetConnForAddr ::
  "'w extern \<Rightarrow> string \<Rightarrow> connManager \<Rightarrow> 'w
     \<Rightarrow> (PacketConn \<times> error option) \<times> connManager \<times> 'w" where
  "GetConnForAddr env network c w =
     (if network = ''udp4'' then
        (if connIPv4 c \<noteq> nil then ((connIPv4 c, None), c, w)
         else (case createConn env network ''0.0.0.0:0'' w of
                 ((pc, err), w') \<Rightarrow> ((pc, err), c\<lparr>connIPv4 := pc\<rparr>, w')))
      else if network = ''udp6'' then
        (if connIPv6 c \<noteq> nil then ((connIPv6 c, None), c, w)
         else (case createConn env network '':0'' w of
                 ((pc, err), w') \<Rightarrow> ((pc, err), c\<lparr>connIPv6 := pc\<rparr>, w')))
      else ((nil, Some (errorString (''unsupported network: '' @ network))), c, w))"

subsection \<open>The certificate check\<close>

text \<open>The loop over \<^verbatim>\<open>rawCerts\<close>: it stops at the first certificate that does not parse.\<close>

primrec parseChain :: "'w extern \<Rightarrow> bytes list \<Rightarrow> error + Certificate list" where
  "parseChain env [] = Inr []"
| "parseChain env (raw # rest) =
     (case ParseCertificate env raw of
        Inl err \<Rightarrow> Inl err
      | Inr cert \<Rightarrow>
          (case parseChain env rest of
             Inl err \<Rightarrow> Inl err
           | Inr chain \<Rightarrow> Inr (cert # chain)))"

text \<open>
  Modelled from the spec: \<^verbatim>\<open>peer.ID.MatchesPublicKey\<close> belongs to go-libp2p-core. The
  expected peer ID matches a key when it is the ID derived from that key.
\<close>

definition MatchesPublicKey :: "'w extern \<Rightarrow> peer_ID \<Rightarrow> PubKey \<Rightarrow> bool" where
  "MatchesPublicKey env p key =
     (case IDFromPublicKey env key of Inl err \<Rightarrow> False | Inr oid \<Rightarrow> oid = p)"

text \<open>
  The closure assigned to \<^verbatim>\<open>tlsConf.VerifyPeerCertificate\<close>, for the peer ID \<open>p\<close> that
  \<^verbatim>\<open>Dial\<close> was called with. \<^verbatim>\<open>getRemotePubKey\<close> is taken to return no key with an error.
\<close>

definition verifyPeerCertificate :: "'w extern \<Rightarrow> peer_ID \<Rightarrow> verify_fn" where
  "verifyPeerCertificate env p rawCerts remotePubKey =
     (case parseChain env rawCerts of
        Inl err \<Rightarrow> (Some err, remotePubKey)
      | Inr chain \<Rightarrow>
          (case getRemotePubKey env chain of
             Inl err \<Rightarrow> (Some err, None)
           | Inr key \<Rightarrow>
               if \<not> MatchesPublicKey env p key
               then (Some (errorString ''peer IDs don't match''), Some key)
               else (None, Some key)))"

subsection \<open>Collaborators of Dial\<close>

text \<open>The package variable \<^verbatim>\<open>quicConfig\<close>; 4.5 * (1 << 20) is 4718592.\<close>

definition quicConfig :: quic_Config where
  "quicConfig =
     \<lparr>MaxIncomingStreams = 1000,
      MaxIncomingUniStreams = - 1,
      MaxReceiveStreamFlowControlWindow = 3 * 2 ^ 20,
      MaxReceiveConnectionFlowControlWindow = 4718592,
      AcceptToken = (\<lambda>clientAddr token. True),
      KeepAlive = True\<rparr>"

text \<open>
  Reading through a pointer to a \<^verbatim>\<open>tls.Config\<close>. Go has no pointer without an object;
  the model reads an index outside the store like the nil pointer: nothing is there.
\<close>

definition load :: "tls_Config list \<Rightarrow> nat option \<Rightarrow> tls_Config option" where
  "load store c =
     (case c of
        None \<Rightarrow> None
      | Some a \<Rightarrow> if a < length store then Some (store ! a) else None)"

text \<open>
  \<^verbatim>\<open>(*tls.Config).Clone\<close> on the store: the nil pointer is cloned to nil, any other to a
  new object with the same fields.
\<close>

definition Clone :: "nat option \<Rightarrow> tls_Config list \<Rightarrow> nat option \<times> tls_Config list" where
  "Clone c store =
     (case load store c of
        None \<Rightarrow> (None, store)
      | Some cfg \<Rightarrow> (Some (length store), store @ [cfg]))"

text \<open>
  Modelled from the spec: \<^verbatim>\<open>quic.DialContext\<close> belongs to quic-go and runs the handshake
  of crypto/tls. Of that engine the model keeps what sections 4.2 and 6 of the
  specification say: the callback of the configuration it is given, if there is one, is
  called with the raw certificate chain that the remote presents; an error of the
  callback aborts the handshake and is the error of the call; no session is established
  before the remote has presented its chain. A session that is established is added to
  the open sessions. \<open>captured\<close> is the variable the callback writes.
\<close>

definition DialContext ::
  "'w extern \<Rightarrow> Context \<Rightarrow> PacketConn \<Rightarrow> UDPAddr \<Rightarrow> string \<Rightarrow> tls_Config \<Rightarrow> quic_Config
     \<Rightarrow> PubKey option \<Rightarrow> Session list \<Rightarrow> 'w
     \<Rightarrow> (error + Session) \<times> PubKey option \<times> Session list \<times> 'w" where
  "DialContext env ctx pconn addr host tlsCfg config captured live w =
     (case quic_handshake env ctx pconn addr host config w of
        (Aborted err, w') \<Rightarrow> (Inl err, captured, live, w')
      | (Presented rawCerts result, w') \<Rightarrow>
          (case (case VerifyPeerCertificate tlsCfg of
                   None \<Rightarrow> (None, captured)
                 | Some verify \<Rightarrow> verify rawCerts captured) of
             (Some err, captured') \<Rightarrow> (Inl err, captured', live, w')
           | (None, captured') \<Rightarrow>
               (case result of
                  Inl err \<Rightarrow> (Inl err, captured', live, w')
                | Inr session \<Rightarrow> (Inr session, captured', session # live, w'))))"

subsection \<open>Dial and the capability queries\<close>

text \<open>The struct \<^verbatim>\<open>conn\<close> that a successful \<^verbatim>\<open>Dial\<close> returns.\<close>

record conn =
  sess :: Session
  transport :: transport
  privKey :: PrivKey
  localPeer :: peer_ID
  localMultiaddr :: Multiaddr
  remotePubKey :: "PubKey option"
  remotePeerID :: peer_ID
  remoteMultiaddr :: Multiaddr

text \<open>
  \<^verbatim>\<open>Dial\<close>, statement by statement. The assignment to the field of the clone panics when
  the clone is nil. No branch closes a session or a socket.
\<close>

definition Dial ::
  "'w extern \<Rightarrow> Context \<Rightarrow> Multiaddr \<Rightarrow> peer_ID \<Rightarrow> 'w machine
     \<Rightarrow> (error + conn) \<times> 'w machine" where
  "Dial env ctx raddr p s =
     (case DialArgs env raddr of
        Inl err \<Rightarrow> (Inl err, s)
      | Inr (network, host) \<Rightarrow>
          (case GetConnForAddr env network (connManager (this s)) (os s) of
             ((pconn, err), c', w1) \<Rightarrow>
               (let s1 = s\<lparr>this := (this s)\<lparr>connManager := c'\<rparr>, os := w1\<rparr> in
                case err of
                  Some e \<Rightarrow> (Inl e, s1)
                | None \<Rightarrow>
                    (case fromQuicMultiaddr env raddr of
                       Inl e \<Rightarrow> (Inl e, s1)
                     | Inr addr \<Rightarrow>
                         (case Clone (tlsConf (this s1)) (configs s1) of
                            (None, store) \<Rightarrow>
                              (Inl (panic ''invalid memory address or nil pointer dereference''),
                               s1\<lparr>configs := store\<rparr>)
                          | (Some a, store) \<Rightarrow>
                              (let store' = store[a := (store ! a)
                                     \<lparr>VerifyPeerCertificate :=
                                        Some (verifyPeerCertificate env p)\<rparr>] in
                               case DialContext env ctx pconn addr host (store' ! a)
                                      quicConfig None (sessions s1) (os s1) of
                                 (Inl e, key, live, w2) \<Rightarrow>
                                   (Inl e, s1\<lparr>configs := store', sessions := live, os := w2\<rparr>)
                               | (Inr session, key, live, w2) \<Rightarrow>
                                   (let s2 = s1\<lparr>configs := store', sessions := live,
                                                os := w2\<rparr> in
                                    case toQuicMultiaddr env (LocalAddr session) of
                                      Inl e \<Rightarrow> (Inl e, s2)
                                    | Inr lma \<Rightarrow>
                                        (Inr \<lparr>sess = session,
                                              transport = this s2,
                                              privKey = transport.privKey (this s2),
                                              localPeer = transport.localPeer (this s2),
                                              localMultiaddr = lma,
                                              remotePubKey = key,
                                              remotePeerID = p,
                                              remoteMultiaddr = raddr\<rparr>, s2))))))))"

text \<open>\<^verbatim>\<open>ma.P_QUIC\<close>, the protocol code of QUIC in go-multiaddr.\<close>

definition P_QUIC :: int where
  "P_QUIC = 460"

text \<open>The three queries take the receiver and do not assign to it; they return the state they got.\<close>

definition CanDial :: "'w extern \<Rightarrow> Multiaddr \<Rightarrow> 'w machine \<Rightarrow> bool \<times> 'w machine" where
  "CanDial env addr s = (QUIC_Matches env addr, s)"

definition Proxy :: "'w machine \<Rightarrow> bool \<times> 'w machine" where
  "Proxy s = (False, s)"

definition Protocols :: "'w machine \<Rightarrow> int list \<times> 'w machine" where
  "Protocols s = ([P_QUIC], s)"

subsection \<open>Example environments\<close>

text \<open>
  Concrete collaborators on which the theorems below are run. The world is a counter of
  the sockets the system has been asked for. One remote listens at
  \<^verbatim>\<open>/ip4/127.0.0.1/udp/4001/quic\<close>; its certificate is the byte 1 and derives the peer ID
  \<^verbatim>\<open>QmAlice\<close>.
\<close>

definition alice_addr :: Multiaddr where
  "alice_addr = Multiaddr ''/ip4/127.0.0.1/udp/4001/quic''"

definition alice_session :: Session where
  "alice_session = \<lparr>LocalAddr = UDPAddr ''0.0.0.0:50000'', session_id = 1\<rparr>"

definition example_env :: "nat extern" where
  "example_env =
     \<lparr>ResolveUDPAddr = (\<lambda>network host. Inr (UDPAddr host)),
      ListenUDP = (\<lambda>network addr w. ((Some w, None), Suc w)),
      DialArgs = (\<lambda>a. if a = alice_addr then Inr (''udp4'', ''127.0.0.1:4001'')
                        else if a = Multiaddr ''/ip4/127.0.0.1/tcp/4001''
                        then Inr (''tcp4'', ''127.0.0.1:4001'')
                        else Inl (errorString ''not a thin waist address'')),
      fromQuicMultiaddr = (\<lambda>a. if a = alice_addr then Inr (UDPAddr ''127.0.0.1:4001'')
                                 else Inl (errorString ''network not supported'')),
      toQuicMultiaddr = (\<lambda>a. Inr (Multiaddr ''/ip4/0.0.0.0/udp/50000/quic'')),
      ParseCertificate = (\<lambda>raw. Inr (Certificate raw)),
      getRemotePubKey = (\<lambda>chain. case chain of
                            [Certificate b] \<Rightarrow> Inr (PubKey b)
                          | _ \<Rightarrow> Inl (errorString ''expected one certificates in the chain'')),
      IDFromPublicKey = (\<lambda>k. case k of PubKey b \<Rightarrow>
                            Inr (if b = [1] then ''QmAlice'' else ''QmBob'')),
      QUIC_Matches = (\<lambda>a. a = alice_addr),
      quic_handshake = (\<lambda>ctx pconn addr host config w.
                          (Presented [[1]] (Inr alice_session), w))\<rparr>"

text \<open>The same, with a system that has no descriptor left for the first socket asked for.\<close>

definition exhausted_env :: "nat extern" where
  "exhausted_env =
     example_env
       \<lparr>ListenUDP := (\<lambda>network addr w.
          if w = 0 then ((None, Some (errorString ''too many open files'')), Suc w)
          else ((Some w, None), Suc w))\<rparr>"

text \<open>The same, with a local address that cannot be written as a multiaddress.\<close>

definition untranslatable_env :: "nat extern" where
  "untranslatable_env =
     example_env\<lparr>toQuicMultiaddr := (\<lambda>a. Inl (errorString ''unexpected address''))\<rparr>"

text \<open>
  The same, with a codec that gives the dial arguments of the remote address but cannot
  turn the address into a \<^verbatim>\<open>net.Addr\<close>.
\<close>

definition half_decoding_env :: "nat extern" where
  "half_decoding_env =
     example_env\<lparr>fromQuicMultiaddr := (\<lambda>a. Inl (errorString ''unexpected address''))\<rparr>"

definition empty_pool :: connManager where
  "empty_pool = \<lparr>connIPv4 = nil, connIPv6 = nil\<rparr>"

definition template :: tls_Config where
  "template = \<lparr>Certificates = [[9]], VerifyPeerCertificate = None\<rparr>"

definition example_machine :: "nat machine" where
  "example_machine =
     \<lparr>this = \<lparr>transport.privKey = PrivKey [7], transport.localPeer = ''QmLocal'',
              tlsConf = Some 0,
              connManager = empty_pool\<rparr>,
      configs = [template],
      sessions = [],
      os = 0\<rparr>"

text \<open>The connection and the state that dialling \<^verbatim>\<open>QmAlice\<close> from the example state gives.\<close>

definition dialled_machine :: "nat machine" where
  "dialled_machine =
     \<lparr>this = \<lparr>transport.privKey = PrivKey [7], transport.localPeer = ''QmLocal'',
              tlsConf = Some 0,
              connManager = \<lparr>connIPv4 = UDPConn (Some 0), connIPv6 = nil\<rparr>\<rparr>,
      configs = [template,
                 template\<lparr>VerifyPeerCertificate :=
                   Some (verifyPeerCertificate example_env ''QmAlice'')\<rparr>],
      sessions = [alice_session],
      os = 1\<rparr>"

definition alice_conn :: conn where
  "alice_conn =
     \<lparr>sess = alice_session,
      transport = this dialled_machine,
      privKey = PrivKey [7],
      localPeer = ''QmLocal'',
      localMultiaddr = Multiaddr ''/ip4/0.0.0.0/udp/50000/quic'',
      remotePubKey = Some (PubKey [1]),
      remotePeerID = ''QmAlice'',
      remoteMultiaddr = alice_addr\<rparr>"

section \<open>Properties\<close>

subsection \<open>Facts about the socket pool\<close>

lemma createConn_ok_not_nil:
  "createConn env network host w = ((pc, None), w') \<Longrightarrow> pc \<noteq> nil"
  by (auto simp: createConn_def split: sum.splits prod.splits)

lemma GetConnForAddr_ok_not_nil:
  "GetConnForAddr env network c w = ((pc, None), c', w') \<Longrightarrow> pc \<noteq> nil"
  by (auto simp: GetConnForAddr_def split: if_splits prod.splits dest: createConn_ok_not_nil)

lemma GetConnForAddr_udp4_slot:
  "GetConnForAddr env ''udp4'' c w = ((pc, e), c', w') \<Longrightarrow>
   connIPv4 c' = pc \<and> connIPv6 c' = connIPv6 c"
  by (auto simp: GetConnForAddr_def split: if_splits prod.splits)

lemma GetConnForAddr_udp6_slot:
  "GetConnForAddr env ''udp6'' c w = ((pc, e), c', w') \<Longrightarrow>
   connIPv6 c' = pc \<and> connIPv4 c' = connIPv4 c"
  by (auto simp: GetConnForAddr_def split: if_splits prod.splits)

lemma GetConnForAddr_keeps_IPv4:
  "connIPv4 c \<noteq> nil \<Longrightarrow>
   connIPv4 (fst (snd (GetConnForAddr env network c w))) = connIPv4 c"
  by (auto simp: GetConnForAddr_def split: if_splits prod.splits)

lemma GetConnForAddr_keeps_IPv6:
  "connIPv6 c \<noteq> nil \<Longrightarrow>
   connIPv6 (fst (snd (GetConnForAddr env network c w))) = connIPv6 c"
  by (auto simp: GetConnForAddr_def split: if_splits prod.splits)

lemma GetConnForAddr_cached_udp4:
  "connIPv4 c \<noteq> nil \<Longrightarrow> GetConnForAddr env ''udp4'' c w = ((connIPv4 c, None), c, w)"
  by (simp add: GetConnForAddr_def)

lemma GetConnForAddr_cached_udp6:
  "connIPv6 c \<noteq> nil \<Longrightarrow> GetConnForAddr env ''udp6'' c w = ((connIPv6 c, None), c, w)"
  by (simp add: GetConnForAddr_def)

lemma GetConnForAddr_udp4_indep:
  "fst (GetConnForAddr env ''udp4'' (c\<lparr>connIPv6 := x\<rparr>) w) =
   fst (GetConnForAddr env ''udp4'' c w)"
  by (auto simp: GetConnForAddr_def split: if_splits prod.splits)

lemma GetConnForAddr_udp6_indep:
  "fst (GetConnForAddr env ''udp6'' (c\<lparr>connIPv4 := x\<rparr>) w) =
   fst (GetConnForAddr env ''udp6'' c w)"
  by (auto simp: GetConnForAddr_def split: if_splits prod.splits)

text \<open>
  The two ways in which the creation of the IPv4 socket fails. When the address does not
  resolve, the slot stays nil and the next call tries again. When \<^verbatim>\<open>net.ListenUDP\<close>
  fails, the slot receives an interface value that holds the pointer \<^verbatim>\<open>ListenUDP\<close>
  returned; this value is not nil, so the next call returns it, with no error, and asks
  the system for nothing.
\<close>

lemma GetConnForAddr_resolve_error_not_cached:
  assumes "connIPv4 c = nil" and "ResolveUDPAddr env ''udp4'' ''0.0.0.0:0'' = Inl e"
  shows "GetConnForAddr env ''udp4'' c w = ((nil, Some e), c\<lparr>connIPv4 := nil\<rparr>, w)"
    and "GetConnForAddr env ''udp4'' (c\<lparr>connIPv4 := nil\<rparr>) w' =
           ((nil, Some e), c\<lparr>connIPv4 := nil\<rparr>, w')"
  using assms by (simp_all add: GetConnForAddr_def createConn_def)

lemma GetConnForAddr_listen_error_cached:
  assumes "connIPv4 c = nil" and "ResolveUDPAddr env ''udp4'' ''0.0.0.0:0'' = Inr addr"
      and "ListenUDP env ''udp4'' addr w = ((ptr, Some e), w')"
  shows "GetConnForAddr env ''udp4'' c w =
           ((UDPConn ptr, Some e), c\<lparr>connIPv4 := UDPConn ptr\<rparr>, w')"
    and "GetConnForAddr env ''udp4'' (c\<lparr>connIPv4 := UDPConn ptr\<rparr>) w'' =
           ((UDPConn ptr, None), c\<lparr>connIPv4 := UDPConn ptr\<rparr>, w'')"
  using assms by (simp_all add: GetConnForAddr_def createConn_def)

lemma example_udp4:
  "GetConnForAddr example_env ''udp4'' empty_pool 0 =
     ((UDPConn (Some 0), None), \<lparr>connIPv4 = UDPConn (Some 0), connIPv6 = nil\<rparr>, 1)"
  by (simp add: GetConnForAddr_def createConn_def example_env_def empty_pool_def)

lemma example_udp6:
  "GetConnForAddr example_env ''udp6'' \<lparr>connIPv4 = UDPConn (Some 0), connIPv6 = nil\<rparr> 1 =
     ((UDPConn (Some 1), None),
      \<lparr>connIPv4 = UDPConn (Some 0), connIPv6 = UDPConn (Some 1)\<rparr>, 2)"
  by (simp add: GetConnForAddr_def createConn_def example_env_def)

subsection \<open>Claims about the socket pool\<close>

text \<open>
  C4. A request for \<^verbatim>\<open>udp4\<close> that succeeds returns the socket \<open>pc4\<close>; the same request on
  the pool and world it leaves returns \<open>pc4\<close> again and changes neither the pool nor the
  world, so no second socket is created; no later request, for whatever network, puts
  another value into the IPv4 slot. The socket returned is the content of the IPv4 slot,
  the IPv6 slot is left as it was, and the result is the same whatever the IPv6 slot
  holds. The same holds for \<^verbatim>\<open>udp6\<close> with the slots exchanged.
\<close>

theorem GetConnForAddr_reuse_and_isolation:
  "(GetConnForAddr env ''udp4'' c w = ((pc4, None), c4, w4) \<longrightarrow>
      GetConnForAddr env ''udp4'' c4 w4 = ((pc4, None), c4, w4)
    \<and> connIPv4 (fst (snd (GetConnForAddr env network c4 w'))) = pc4
    \<and> connIPv4 c4 = pc4 \<and> connIPv6 c4 = connIPv6 c
    \<and> fst (GetConnForAddr env ''udp4'' (c\<lparr>connIPv6 := x\<rparr>) w) = (pc4, None))
   \<and> (GetConnForAddr env ''udp6'' d v = ((pc6, None), d6, v6) \<longrightarrow>
      GetConnForAddr env ''udp6'' d6 v6 = ((pc6, None), d6, v6)
    \<and> connIPv6 (fst (snd (GetConnForAddr env network d6 w'))) = pc6
    \<and> connIPv6 d6 = pc6 \<and> connIPv4 d6 = connIPv4 d
    \<and> fst (GetConnForAddr env ''udp6'' (d\<lparr>connIPv4 := x\<rparr>) v) = (pc6, None))"
proof (intro conjI impI)
  assume u4: "GetConnForAddr env ''udp4'' c w = ((pc4, None), c4, w4)"
  have n4: "pc4 \<noteq> nil" using u4 by (rule GetConnForAddr_ok_not_nil)
  have s4: "connIPv4 c4 = pc4 \<and> connIPv6 c4 = connIPv6 c"
    using u4 by (rule GetConnForAddr_udp4_slot)
  show "GetConnForAddr env ''udp4'' c4 w4 = ((pc4, None), c4, w4)"
    using n4 s4 by (simp add: GetConnForAddr_cached_udp4)
  show "connIPv4 (fst (snd (GetConnForAddr env network c4 w'))) = pc4"
    using n4 s4 by (simp add: GetConnForAddr_keeps_IPv4)
  show "connIPv4 c4 = pc4" and "connIPv6 c4 = connIPv6 c"
    using s4 by simp_all
  show "fst (GetConnForAddr env ''udp4'' (c\<lparr>connIPv6 := x\<rparr>) w) = (pc4, None)"
    using u4 by (simp add: GetConnForAddr_udp4_indep)
next
  assume u6: "GetConnForAddr env ''udp6'' d v = ((pc6, None), d6, v6)"
  have n6: "pc6 \<noteq> nil" using u6 by (rule GetConnForAddr_ok_not_nil)
  have s6: "connIPv6 d6 = pc6 \<and> connIPv4 d6 = connIPv4 d"
    using u6 by (rule GetConnForAddr_udp6_slot)
  show "GetConnForAddr env ''udp6'' d6 v6 = ((pc6, None), d6, v6)"
    using n6 s6 by (simp add: GetConnForAddr_cached_udp6)
  show "connIPv6 (fst (snd (GetConnForAddr env network d6 w'))) = pc6"
    using n6 s6 by (simp add: GetConnForAddr_keeps_IPv6)
  show "connIPv6 d6 = pc6" and "connIPv4 d6 = connIPv4 d"
    using s6 by simp_all
  show "fst (GetConnForAddr env ''udp6'' (d\<lparr>connIPv4 := x\<rparr>) v) = (pc6, None)"
    using u6 by (simp add: GetConnForAddr_udp6_indep)
qed

text \<open>
  C4 on the example: the first socket is number 0 and serves \<^verbatim>\<open>udp4\<close>, the second is
  number 1 and serves \<^verbatim>\<open>udp6\<close>; asking again returns the same two and the world still
  counts the sockets it had handed out.
\<close>

theorem GetConnForAddr_reuse_and_isolation_witness:
  "GetConnForAddr example_env ''udp4'' empty_pool 0 =
     ((UDPConn (Some 0), None), \<lparr>connIPv4 = UDPConn (Some 0), connIPv6 = nil\<rparr>, 1)
   \<and> GetConnForAddr example_env ''udp6'' \<lparr>connIPv4 = UDPConn (Some 0), connIPv6 = nil\<rparr> 1 =
     ((UDPConn (Some 1), None),
      \<lparr>connIPv4 = UDPConn (Some 0), connIPv6 = UDPConn (Some 1)\<rparr>, 2)
   \<and> GetConnForAddr example_env ''udp4'' \<lparr>connIPv4 = UDPConn (Some 0), connIPv6 = nil\<rparr> 1 =
     ((UDPConn (Some 0), None), \<lparr>connIPv4 = UDPConn (Some 0), connIPv6 = nil\<rparr>, 1)
   \<and> GetConnForAddr example_env ''udp6''
        \<lparr>connIPv4 = UDPConn (Some 0), connIPv6 = UDPConn (Some 1)\<rparr> 2 =
     ((UDPConn (Some 1), None),
      \<lparr>connIPv4 = UDPConn (Some 0), connIPv6 = UDPConn (Some 1)\<rparr>, 2)
   \<and> fst (GetConnForAddr example_env ''udp4'' (empty_pool\<lparr>connIPv6 := UDPConn (Some 5)\<rparr>) 0) =
     (UDPConn (Some 0), None)"
  using GetConnForAddr_reuse_and_isolation
      [where env = example_env and network = "''udp4''" and x = "UDPConn (Some 5)"
         and c = empty_pool and w = 0 and ?pc4.0 = "UDPConn (Some 0)"
         and ?c4.0 = "\<lparr>connIPv4 = UDPConn (Some 0), connIPv6 = nil\<rparr>" and ?w4.0 = 1
         and d = "\<lparr>connIPv4 = UDPConn (Some 0), connIPv6 = nil\<rparr>" and v = 1
         and ?pc6.0 = "UDPConn (Some 1)"
         and ?d6.0 = "\<lparr>connIPv4 = UDPConn (Some 0), connIPv6 = UDPConn (Some 1)\<rparr>"
         and ?v6.0 = 2 and w' = 0]
    example_udp4 example_udp6
  by simp

text \<open>
  C5. A request for a network other than \<^verbatim>\<open>udp4\<close> and \<^verbatim>\<open>udp6\<close> returns the nil socket
  and the error \<^verbatim>\<open>unsupported network: \<close> followed by the network; the pool and the
  world are as before, so nothing was created and nothing stored.
\<close>

theorem GetConnForAddr_unsupported:
  assumes "network \<noteq> ''udp4''" and "network \<noteq> ''udp6''"
  shows "GetConnForAddr env network c w =
           ((nil, Some (errorString (''unsupported network: '' @ network))), c, w)"
  using assms by (simp add: GetConnForAddr_def)

text \<open>C5 on the example, for the network \<^verbatim>\<open>udp5\<close>.\<close>

theorem GetConnForAddr_unsupported_witness:
  "''udp5'' \<noteq> ''udp4'' \<and> ''udp5'' \<noteq> ''udp6''
   \<and> GetConnForAddr example_env ''udp5'' empty_pool 0 =
       ((nil, Some (errorString ''unsupported network: udp5'')), empty_pool, 0)"
proof -
  have a: "''udp5'' \<noteq> ''udp4''" and b: "''udp5'' \<noteq> ''udp6''" by simp_all
  from GetConnForAddr_unsupported [OF a b, of example_env empty_pool 0] a b
  show ?thesis by simp
qed

text \<open>
  C6. The claim does not hold of the code when \<^verbatim>\<open>net.ListenUDP\<close> fails. On an empty pool,
  with a system that fails the first \<^verbatim>\<open>ListenUDP\<close> (world 0) and would serve the second
  (world 1): the first request for \<^verbatim>\<open>udp4\<close> returns the error, but stores in the IPv4 slot
  an interface value around the nil pointer, which is not the nil interface. The second
  request finds the slot occupied: it returns that value with no error and leaves the world
  at 1, so creation is not attempted again, although it would now succeed.
\<close>

theorem GetConnForAddr_listen_failure_is_cached:
  "GetConnForAddr exhausted_env ''udp4'' empty_pool 0 =
     ((UDPConn None, Some (errorString ''too many open files'')),
      \<lparr>connIPv4 = UDPConn None, connIPv6 = nil\<rparr>, 1)
   \<and> connIPv4 (fst (snd (GetConnForAddr exhausted_env ''udp4'' empty_pool 0))) \<noteq> nil
   \<and> GetConnForAddr exhausted_env ''udp4'' \<lparr>connIPv4 = UDPConn None, connIPv6 = nil\<rparr> 1 =
     ((UDPConn None, None), \<lparr>connIPv4 = UDPConn None, connIPv6 = nil\<rparr>, 1)
   \<and> createConn exhausted_env ''udp4'' ''0.0.0.0:0'' 1 = ((UDPConn (Some 1), None), 2)"
  by (simp add: GetConnForAddr_def createConn_def example_env_def exhausted_env_def
      empty_pool_def)

subsection \<open>Facts about the certificate check and Dial\<close>

lemma MatchesPublicKey_iff:
  "MatchesPublicKey env p key \<longleftrightarrow> IDFromPublicKey env key = Inr p"
  by (auto simp: MatchesPublicKey_def split: sum.splits)

lemma verifyPeerCertificate_mismatch:
  assumes "parseChain env rawCerts = Inr chain" and "getRemotePubKey env chain = Inr key"
      and "IDFromPublicKey env key = Inr Q" and "Q \<noteq> p"
  shows "verifyPeerCertificate env p rawCerts k =
           (Some (errorString ''peer IDs don't match''), Some key)"
  using assms by (simp add: verifyPeerCertificate_def MatchesPublicKey_def)

text \<open>
  Every successful \<^verbatim>\<open>Dial\<close> went through a handshake in which the remote presented a chain
  that parses, yields a key and matches the expected peer ID.
\<close>

lemma Dial_success:
  assumes "Dial env ctx raddr p s = (Inr c, s')"
  shows "\<exists>pconn addr host w1 rawCerts session w2 chain key lma.
           quic_handshake env ctx pconn addr host quicConfig w1 =
             (Presented rawCerts (Inr session), w2) \<and>
           parseChain env rawCerts = Inr chain \<and>
           getRemotePubKey env chain = Inr key \<and>
           MatchesPublicKey env p key \<and>
           toQuicMultiaddr env (LocalAddr session) = Inr lma \<and>
           sess c = session \<and>
           privKey c = transport.privKey (this s) \<and>
           localPeer c = transport.localPeer (this s) \<and>
           localMultiaddr c = lma \<and>
           remotePubKey c = Some key \<and>
           remotePeerID c = p \<and>
           remoteMultiaddr c = raddr"
  using assms
  unfolding Dial_def DialContext_def verifyPeerCertificate_def Clone_def Let_def
  by (auto split: sum.splits prod.splits option.splits handshake.splits if_splits) blast+

text \<open>\<^verbatim>\<open>Dial\<close> from the call of the engine on, once the four steps before it have succeeded.\<close>

lemma Dial_reaches_handshake:
  assumes "DialArgs env raddr = Inr (network, host)"
      and "GetConnForAddr env network (connManager (this s)) (os s) = ((pconn, None), pool, w1)"
      and "fromQuicMultiaddr env raddr = Inr addr"
      and "load (configs s) (tlsConf (this s)) = Some cfg"
  shows "Dial env ctx raddr p s =
     (let cfg' = cfg\<lparr>VerifyPeerCertificate := Some (verifyPeerCertificate env p)\<rparr>;
          s1 = s\<lparr>this := (this s)\<lparr>connManager := pool\<rparr>, configs := configs s @ [cfg']\<rparr> in
      case DialContext env ctx pconn addr host cfg' quicConfig None (sessions s) w1 of
        (Inl e, key, live, w2) \<Rightarrow> (Inl e, s1\<lparr>sessions := live, os := w2\<rparr>)
      | (Inr session, key, live, w2) \<Rightarrow>
          (case toQuicMultiaddr env (LocalAddr session) of
             Inl e \<Rightarrow> (Inl e, s1\<lparr>sessions := live, os := w2\<rparr>)
           | Inr lma \<Rightarrow>
               (Inr \<lparr>sess = session,
                     transport = (this s)\<lparr>connManager := pool\<rparr>,
                     privKey = transport.privKey (this s),
                     localPeer = transport.localPeer (this s),
                     localMultiaddr = lma,
                     remotePubKey = key,
                     remotePeerID = p,
                     remoteMultiaddr = raddr\<rparr>, s1\<lparr>sessions := live, os := w2\<rparr>)))"
  using assms
  unfolding Dial_def Clone_def Let_def
  by (auto split: sum.splits prod.splits option.splits)

text \<open>
  What any call of \<^verbatim>\<open>Dial\<close> leaves alone: the identity fields and the pointer of the
  transport; the store, which at most grows by the clone; the open sessions, which at most
  grow.
\<close>

lemma Dial_frame_aux:
  "Dial env ctx raddr p s = (r, s') \<Longrightarrow>
   transport.privKey (this s') = transport.privKey (this s)
   \<and> transport.localPeer (this s') = transport.localPeer (this s)
   \<and> tlsConf (this s') = tlsConf (this s)
   \<and> (configs s' = configs s \<or>
       (\<exists>cfg. load (configs s) (tlsConf (this s)) = Some cfg \<and>
          configs s' = configs s @
            [cfg\<lparr>VerifyPeerCertificate := Some (verifyPeerCertificate env p)\<rparr>]))
   \<and> (\<exists>new. sessions s' = new @ sessions s)"
  unfolding Dial_def DialContext_def Clone_def Let_def
  by (auto split: sum.splits prod.splits option.splits handshake.splits if_splits)

lemma load_append: "load store c = Some cfg \<Longrightarrow> load (store @ new) c = Some cfg"
  by (auto simp: load_def nth_append split: option.splits if_splits)

text \<open>The example state, step by step.\<close>

lemma example_DialArgs:
  "DialArgs example_env alice_addr = Inr (''udp4'', ''127.0.0.1:4001'')"
  by (simp add: example_env_def)

lemma example_pool:
  "GetConnForAddr example_env ''udp4'' (connManager (this example_machine))
     (os example_machine) =
   ((UDPConn (Some 0), None), \<lparr>connIPv4 = UDPConn (Some 0), connIPv6 = nil\<rparr>, 1)"
  using example_udp4 by (simp add: example_machine_def)

lemma example_fromQuicMultiaddr:
  "fromQuicMultiaddr example_env alice_addr = Inr (UDPAddr ''127.0.0.1:4001'')"
  by (simp add: example_env_def)

lemma example_load:
  "load (configs example_machine) (tlsConf (this example_machine)) = Some template"
  by (simp add: example_machine_def load_def)

lemma example_handshake:
  "quic_handshake example_env (Context 0) (UDPConn (Some 0)) (UDPAddr ''127.0.0.1:4001'')
     ''127.0.0.1:4001'' quicConfig 1 = (Presented [[1]] (Inr alice_session), 1)"
  by (simp add: example_env_def)

lemma example_chain:
  "parseChain example_env [[1]] = Inr [Certificate [1]]"
  "getRemotePubKey example_env [Certificate [1]] = Inr (PubKey [1])"
  "IDFromPublicKey example_env (PubKey [1]) = Inr ''QmAlice''"
  by (simp_all add: example_env_def)

lemma example_accepts:
  "verifyPeerCertificate example_env ''QmAlice'' [[1]] None = (None, Some (PubKey [1]))"
  by (simp add: verifyPeerCertificate_def MatchesPublicKey_def example_env_def)

lemma example_Dial:
  "Dial example_env (Context 0) alice_addr ''QmAlice'' example_machine =
     (Inr alice_conn, dialled_machine)"
proof -
  have hs: "DialContext example_env (Context 0) (UDPConn (Some 0)) (UDPAddr ''127.0.0.1:4001'')
              ''127.0.0.1:4001''
              (template\<lparr>VerifyPeerCertificate :=
                 Some (verifyPeerCertificate example_env ''QmAlice'')\<rparr>)
              quicConfig None (sessions example_machine) 1 =
            (Inr alice_session, Some (PubKey [1]), [alice_session], 1)"
    using example_handshake example_accepts
    by (simp add: DialContext_def example_machine_def)
  have lma: "toQuicMultiaddr example_env (LocalAddr alice_session) =
               Inr (Multiaddr ''/ip4/0.0.0.0/udp/50000/quic'')"
    by (simp add: example_env_def)
  show ?thesis
    unfolding Dial_reaches_handshake
      [OF example_DialArgs example_pool example_fromQuicMultiaddr example_load]
    using hs lma
    by (simp add: Let_def example_machine_def dialled_machine_def alice_conn_def)
qed

subsection \<open>Claims about Dial\<close>

text \<open>
  C1. Take a call \<^verbatim>\<open>Dial(ctx, raddr, p)\<close> that reaches the handshake (the address decodes,
  the pool yields a socket, the transport has a TLS configuration) and in which the remote
  presents a chain \<open>rawCerts\<close> that parses and whose key derives the peer ID \<open>Q\<close>, with
  \<open>Q \<noteq> p\<close>. Then the callback that \<^verbatim>\<open>Dial\<close> put on the clone returns the error
  \<^verbatim>\<open>peer IDs don't match\<close>, the handshake ends with that error, and \<^verbatim>\<open>Dial\<close> returns that
  error and no connection. In the state it leaves, the clone carrying the callback has been
  added to the store and no session has been opened.
\<close>

theorem Dial_identity_mismatch:
  assumes "DialArgs env raddr = Inr (network, host)"
      and "GetConnForAddr env network (connManager (this s)) (os s) = ((pconn, None), pool, w1)"
      and "fromQuicMultiaddr env raddr = Inr addr"
      and "load (configs s) (tlsConf (this s)) = Some cfg"
      and "quic_handshake env ctx pconn addr host quicConfig w1 = (Presented rawCerts result, w2)"
      and "parseChain env rawCerts = Inr chain"
      and "getRemotePubKey env chain = Inr key"
      and "IDFromPublicKey env key = Inr Q"
      and "Q \<noteq> p"
  shows "verifyPeerCertificate env p rawCerts None =
           (Some (errorString ''peer IDs don't match''), Some key)
       \<and> DialContext env ctx pconn addr host
            (cfg\<lparr>VerifyPeerCertificate := Some (verifyPeerCertificate env p)\<rparr>)
            quicConfig None (sessions s) w1 =
           (Inl (errorString ''peer IDs don't match''), Some key, sessions s, w2)
       \<and> Dial env ctx raddr p s =
           (Inl (errorString ''peer IDs don't match''),
            s\<lparr>this := (this s)\<lparr>connManager := pool\<rparr>,
              configs := configs s @
                [cfg\<lparr>VerifyPeerCertificate := Some (verifyPeerCertificate env p)\<rparr>],
              os := w2\<rparr>)"
proof -
  have cb: "verifyPeerCertificate env p rawCerts None =
              (Some (errorString ''peer IDs don't match''), Some key)"
    using assms(6-9) by (rule verifyPeerCertificate_mismatch)
  have hs: "DialContext env ctx pconn addr host
              (cfg\<lparr>VerifyPeerCertificate := Some (verifyPeerCertificate env p)\<rparr>)
              quicConfig None (sessions s) w1 =
            (Inl (errorString ''peer IDs don't match''), Some key, sessions s, w2)"
    using assms(5) cb by (simp add: DialContext_def)
  have "Dial env ctx raddr p s =
           (Inl (errorString ''peer IDs don't match''),
            s\<lparr>this := (this s)\<lparr>connManager := pool\<rparr>,
              configs := configs s @
                [cfg\<lparr>VerifyPeerCertificate := Some (verifyPeerCertificate env p)\<rparr>],
              os := w2\<rparr>)"
    using hs by (simp add: Dial_reaches_handshake[OF assms(1-4)] Let_def)
  with cb hs show ?thesis by simp
qed

text \<open>
  C1 on the example: the remote's certificate derives \<^verbatim>\<open>QmAlice\<close> and the caller dials
  \<^verbatim>\<open>QmBob\<close>.
\<close>

theorem Dial_identity_mismatch_witness:
  "verifyPeerCertificate example_env ''QmBob'' [[1]] None =
     (Some (errorString ''peer IDs don't match''), Some (PubKey [1]))
   \<and> fst (Dial example_env (Context 0) alice_addr ''QmBob'' example_machine) =
       Inl (errorString ''peer IDs don't match'')
   \<and> sessions (snd (Dial example_env (Context 0) alice_addr ''QmBob'' example_machine)) = []"
proof -
  have ne: "''QmAlice'' \<noteq> ''QmBob''" by simp
  from Dial_identity_mismatch
    [OF example_DialArgs example_pool example_fromQuicMultiaddr example_load
      example_handshake example_chain ne]
  show ?thesis by (simp add: example_machine_def)
qed

text \<open>
  C2. When \<^verbatim>\<open>Dial(ctx, raddr, p)\<close> returns a connection, its \<^verbatim>\<open>remotePeerID\<close> is \<open>p\<close>, its
  \<^verbatim>\<open>localPeer\<close> and \<^verbatim>\<open>privKey\<close> are those of the transport, its \<^verbatim>\<open>remoteMultiaddr\<close> is
  \<open>raddr\<close>, and its \<^verbatim>\<open>remotePubKey\<close> is the key that \<^verbatim>\<open>getRemotePubKey\<close> extracted from the
  parsed chain which the remote presented in the handshake of this session; that key
  derives \<open>p\<close>.
\<close>

theorem Dial_connection_fields:
  assumes "Dial env ctx raddr p s = (Inr c, s')"
  shows "remotePeerID c = p
       \<and> localPeer c = transport.localPeer (this s)
       \<and> privKey c = transport.privKey (this s)
       \<and> remoteMultiaddr c = raddr
       \<and> (\<exists>pconn addr host w w' rawCerts chain key.
             quic_handshake env ctx pconn addr host quicConfig w =
               (Presented rawCerts (Inr (sess c)), w')
           \<and> parseChain env rawCerts = Inr chain
           \<and> getRemotePubKey env chain = Inr key
           \<and> IDFromPublicKey env key = Inr p
           \<and> remotePubKey c = Some key)"
proof -
  from Dial_success[OF assms] obtain pconn addr host w1 rawCerts session w2 chain key lma
    where hs: "quic_handshake env ctx pconn addr host quicConfig w1 =
                 (Presented rawCerts (Inr session), w2)"
      and ch: "parseChain env rawCerts = Inr chain" "getRemotePubKey env chain = Inr key"
      and ok: "MatchesPublicKey env p key"
      and lm: "toQuicMultiaddr env (LocalAddr session) = Inr lma" "localMultiaddr c = lma"
      and c: "sess c = session" "privKey c = transport.privKey (this s)"
        "localPeer c = transport.localPeer (this s)" "remotePubKey c = Some key"
        "remotePeerID c = p" "remoteMultiaddr c = raddr"
    by blast
  have id: "IDFromPublicKey env key = Inr p" using ok by (simp add: MatchesPublicKey_iff)
  have "\<exists>pconn addr host w w' rawCerts chain key.
             quic_handshake env ctx pconn addr host quicConfig w =
               (Presented rawCerts (Inr (sess c)), w')
           \<and> parseChain env rawCerts = Inr chain
           \<and> getRemotePubKey env chain = Inr key
           \<and> IDFromPublicKey env key = Inr p
           \<and> remotePubKey c = Some key"
    unfolding c using hs ch id by blast
  then show ?thesis using c by simp
qed

text \<open>C2 on the example: dialling \<^verbatim>\<open>QmAlice\<close> succeeds with the connection computed above.\<close>

theorem Dial_connection_fields_witness:
  "Dial example_env (Context 0) alice_addr ''QmAlice'' example_machine =
     (Inr alice_conn, dialled_machine)
   \<and> remotePeerID alice_conn = ''QmAlice''
   \<and> localPeer alice_conn = ''QmLocal''
   \<and> privKey alice_conn = PrivKey [7]
   \<and> remoteMultiaddr alice_conn = alice_addr
   \<and> remotePubKey alice_conn = Some (PubKey [1])"
  using Dial_connection_fields [OF example_Dial] example_Dial
  by (simp add: alice_conn_def)



text \<open>
  C7. After any call of \<^verbatim>\<open>Dial\<close>, with whatever result, the transport has the
  \<^verbatim>\<open>privKey\<close>, the \<^verbatim>\<open>localPeer\<close> and the \<^verbatim>\<open>tlsConf\<close> pointer it had, and the configuration
  that pointer leads to reads as before, callback included. Every configuration that was
  in the store is unchanged; the store is as it was, or it has grown by one object, the
  clone of the transport's configuration with the callback of this call.
\<close>

theorem Dial_frame:
  "transport.privKey (this (snd (Dial env ctx raddr p s))) = transport.privKey (this s)
   \<and> transport.localPeer (this (snd (Dial env ctx raddr p s))) = transport.localPeer (this s)
   \<and> tlsConf (this (snd (Dial env ctx raddr p s))) = tlsConf (this s)
   \<and> load (configs (snd (Dial env ctx raddr p s))) (tlsConf (this s)) =
       load (configs s) (tlsConf (this s))
   \<and> take (length (configs s)) (configs (snd (Dial env ctx raddr p s))) = configs s
   \<and> (configs (snd (Dial env ctx raddr p s)) = configs s \<or>
       (\<exists>cfg. load (configs s) (tlsConf (this s)) = Some cfg \<and>
          configs (snd (Dial env ctx raddr p s)) =
            configs s @
              [cfg\<lparr>VerifyPeerCertificate := Some (verifyPeerCertificate env p)\<rparr>]))"
proof -
  obtain r s' where d: "Dial env ctx raddr p s = (r, s')"
    by (cases "Dial env ctx raddr p s")
  from Dial_frame_aux[OF d] show ?thesis
    unfolding d by (auto simp: load_append)
qed

text \<open>
  C7 on the example, for the successful dial: the template at index 0 still has no
  callback; the callback sits on the clone at index 1.
\<close>

theorem Dial_frame_witness:
  "transport.privKey (this dialled_machine) = transport.privKey (this example_machine)
   \<and> transport.localPeer (this dialled_machine) = transport.localPeer (this example_machine)
   \<and> tlsConf (this dialled_machine) = Some 0
   \<and> load (configs dialled_machine) (Some 0) = Some template
   \<and> VerifyPeerCertificate template = None
   \<and> configs dialled_machine =
       [template,
        template\<lparr>VerifyPeerCertificate :=
          Some (verifyPeerCertificate example_env ''QmAlice'')\<rparr>]"
  using Dial_frame [of example_env "Context 0" alice_addr "''QmAlice''" example_machine]
  by (simp add: example_Dial example_machine_def dialled_machine_def load_def template_def)

text \<open>
  C8. \<^verbatim>\<open>CanDial(addr)\<close> returns what \<^verbatim>\<open>mafmt.QUIC.Matches(addr)\<close> returns and leaves the state
  as it was; \<^verbatim>\<open>Protocols()\<close> returns the list with the one element \<^verbatim>\<open>ma.P_QUIC\<close>;
  \<^verbatim>\<open>Proxy()\<close> returns false.
\<close>

theorem capability_queries:
  "fst (CanDial env addr s) = QUIC_Matches env addr
   \<and> snd (CanDial env addr s) = s
   \<and> Protocols s = ([P_QUIC], s)
   \<and> set (fst (Protocols s)) = {P_QUIC}
   \<and> Proxy s = (False, s)"
  by (simp add: CanDial_def Protocols_def Proxy_def)

text \<open>C8 on the example: the address of the remote can be dialled, a TCP address cannot.\<close>

theorem capability_queries_witness:
  "CanDial example_env alice_addr example_machine = (True, example_machine)
   \<and> CanDial example_env (Multiaddr ''/ip4/127.0.0.1/tcp/4001'') example_machine =
       (False, example_machine)
   \<and> fst (Protocols example_machine) = [460]
   \<and> fst (Proxy example_machine) = False"
proof -
  have m1: "QUIC_Matches example_env alice_addr"
    by (simp add: example_env_def)
  have m2: "\<not> QUIC_Matches example_env (Multiaddr ''/ip4/127.0.0.1/tcp/4001'')"
    by (simp add: example_env_def alice_addr_def)
  from capability_queries [of example_env alice_addr example_machine]
    capability_queries [of example_env "Multiaddr ''/ip4/127.0.0.1/tcp/4001''" example_machine]
    m1 m2
  show ?thesis by (simp add: prod_eq_iff P_QUIC_def)
qed

text \<open>
  C9, as stated, fails. The remote address is translated twice: by \<^verbatim>\<open>manet.DialArgs\<close>
  before the pool is asked, and by \<^verbatim>\<open>fromQuicMultiaddr\<close> after it. With a codec whose
  second translation fails, \<^verbatim>\<open>Dial\<close> on the example state returns the translation error,
  but the pool has created socket 0 and stored it in the IPv4 slot, and the world counts
  one socket.
\<close>

theorem Dial_second_translation_counterexample:
  "fromQuicMultiaddr half_decoding_env alice_addr = Inl (errorString ''unexpected address'')
   \<and> fst (Dial half_decoding_env (Context 0) alice_addr ''QmAlice'' example_machine) =
       Inl (errorString ''unexpected address'')
   \<and> connManager (this example_machine) = \<lparr>connIPv4 = nil, connIPv6 = nil\<rparr>
   \<and> connManager (this (snd (Dial half_decoding_env (Context 0) alice_addr ''QmAlice''
         example_machine))) = \<lparr>connIPv4 = UDPConn (Some 0), connIPv6 = nil\<rparr>
   \<and> os example_machine = 0
   \<and> os (snd (Dial half_decoding_env (Context 0) alice_addr ''QmAlice'' example_machine)) = 1
   \<and> snd (Dial half_decoding_env (Context 0) alice_addr ''QmAlice'' example_machine) \<noteq>
       example_machine"
  by (simp add: Dial_def GetConnForAddr_def createConn_def half_decoding_env_def
      example_env_def example_machine_def empty_pool_def Let_def)

text \<open>
  C9, amended. When \<^verbatim>\<open>manet.DialArgs\<close> fails on the remote address, \<^verbatim>\<open>Dial\<close> returns that
  error at once and the whole state is as before: the pool was not asked for a socket.
  When \<^verbatim>\<open>manet.DialArgs\<close> and the pool succeed and \<^verbatim>\<open>fromQuicMultiaddr\<close> fails,
  \<^verbatim>\<open>Dial\<close> returns that error as well, after the request to the pool: the state it
  leaves has the pool and the world that \<^verbatim>\<open>GetConnForAddr\<close> left, and is otherwise as
  before.
\<close>

theorem Dial_address_translation_errors:
  "(DialArgs env raddr = Inl err \<longrightarrow> Dial env ctx raddr p s = (Inl err, s))
   \<and> (DialArgs env raddr' = Inr (network, host)
       \<and> GetConnForAddr env network (connManager (this s')) (os s') = ((pconn, None), pool, w1)
       \<and> fromQuicMultiaddr env raddr' = Inl err' \<longrightarrow>
       Dial env ctx' raddr' p' s' =
         (Inl err', s'\<lparr>this := (this s')\<lparr>connManager := pool\<rparr>, os := w1\<rparr>))"
  by (simp add: Dial_def Let_def)

text \<open>
  C9, amended, on the example: an address that names a host instead of an IP address fails
  in the first translation and leaves the state as it was; the address of the remote
  fails in the second translation and leaves the socket in the pool.
\<close>

theorem Dial_address_translation_errors_witness:
  "DialArgs half_decoding_env (Multiaddr ''/dns4/example.com/udp/4001/quic'') =
     Inl (errorString ''not a thin waist address'')
   \<and> Dial half_decoding_env (Context 0) (Multiaddr ''/dns4/example.com/udp/4001/quic'')
       ''QmAlice'' example_machine =
     (Inl (errorString ''not a thin waist address''), example_machine)
   \<and> fromQuicMultiaddr half_decoding_env alice_addr = Inl (errorString ''unexpected address'')
   \<and> Dial half_decoding_env (Context 0) alice_addr ''QmAlice'' example_machine =
     (Inl (errorString ''unexpected address''),
      example_machine
        \<lparr>this := (this example_machine)
           \<lparr>connManager := \<lparr>connIPv4 = UDPConn (Some 0), connIPv6 = nil\<rparr>\<rparr>,
         os := 1\<rparr>)"
proof -
  have a: "DialArgs half_decoding_env (Multiaddr ''/dns4/example.com/udp/4001/quic'') =
             Inl (errorString ''not a thin waist address'')"
    by (simp add: half_decoding_env_def example_env_def alice_addr_def)
  have b: "DialArgs half_decoding_env alice_addr = Inr (''udp4'', ''127.0.0.1:4001'')"
    by (simp add: half_decoding_env_def example_env_def)
  have c: "GetConnForAddr half_decoding_env ''udp4'' (connManager (this example_machine))
             (os example_machine) =
           ((UDPConn (Some 0), None), \<lparr>connIPv4 = UDPConn (Some 0), connIPv6 = nil\<rparr>, 1)"
    by (simp add: GetConnForAddr_def createConn_def half_decoding_env_def example_env_def
        example_machine_def empty_pool_def)
  have d: "fromQuicMultiaddr half_decoding_env alice_addr =
             Inl (errorString ''unexpected address'')"
    by (simp add: half_decoding_env_def example_env_def)
  from Dial_address_translation_errors
      [where env = half_decoding_env
         and raddr = "Multiaddr ''/dns4/example.com/udp/4001/quic''"
         and err = "errorString ''not a thin waist address''"
         and ctx = "Context 0" and p = "''QmAlice''" and s = example_machine
         and raddr' = alice_addr and network = "''udp4''" and host = "''127.0.0.1:4001''"
         and s' = example_machine and pconn = "UDPConn (Some 0)"
         and pool = "\<lparr>connIPv4 = UDPConn (Some 0), connIPv6 = nil\<rparr>" and ?w1.0 = 1
         and err' = "errorString ''unexpected address''"
         and ctx' = "Context 0" and p' = "''QmAlice''"]
    a b c d
  show ?thesis by simp
qed

text \<open>
  C10. When the handshake establishes a session and \<^verbatim>\<open>toQuicMultiaddr\<close> then fails on the
  session's local address, \<^verbatim>\<open>Dial\<close> returns that error and no connection, and the session
  is among the open sessions of the state it leaves: it has not been closed. More
  generally, after any call of \<^verbatim>\<open>Dial\<close> the sessions that were open are still open.
\<close>

theorem Dial_local_address_error:
  assumes "DialArgs env raddr = Inr (network, host)"
      and "GetConnForAddr env network (connManager (this s)) (os s) = ((pconn, None), pool, w1)"
      and "fromQuicMultiaddr env raddr = Inr addr"
      and "load (configs s) (tlsConf (this s)) = Some cfg"
      and "quic_handshake env ctx pconn addr host quicConfig w1 =
             (Presented rawCerts (Inr session), w2)"
      and "verifyPeerCertificate env p rawCerts None = (None, k)"
      and "toQuicMultiaddr env (LocalAddr session) = Inl err"
  shows "Dial env ctx raddr p s =
           (Inl err,
            s\<lparr>this := (this s)\<lparr>connManager := pool\<rparr>,
              configs := configs s @
                [cfg\<lparr>VerifyPeerCertificate := Some (verifyPeerCertificate env p)\<rparr>],
              sessions := session # sessions s,
              os := w2\<rparr>)
       \<and> sessions (snd (Dial env ctx raddr p s)) = session # sessions s
       \<and> (\<exists>new. sessions (snd (Dial env ctx' raddr' p' s0)) = new @ sessions s0)"
proof -
  obtain r0 s0' where d: "Dial env ctx' raddr' p' s0 = (r0, s0')"
    by (cases "Dial env ctx' raddr' p' s0")
  have grow: "\<exists>new. sessions (snd (Dial env ctx' raddr' p' s0)) = new @ sessions s0"
    using Dial_frame_aux[OF d] unfolding d by simp
  have hs: "DialContext env ctx pconn addr host
              (cfg\<lparr>VerifyPeerCertificate := Some (verifyPeerCertificate env p)\<rparr>)
              quicConfig None (sessions s) w1 =
            (Inr session, k, session # sessions s, w2)"
    using assms(5,6) by (simp add: DialContext_def)
  have "Dial env ctx raddr p s =
           (Inl err,
            s\<lparr>this := (this s)\<lparr>connManager := pool\<rparr>,
              configs := configs s @
                [cfg\<lparr>VerifyPeerCertificate := Some (verifyPeerCertificate env p)\<rparr>],
              sessions := session # sessions s,
              os := w2\<rparr>)"
    using hs assms(7) by (simp add: Dial_reaches_handshake[OF assms(1-4)] Let_def)
  with grow show ?thesis by simp
qed

text \<open>C10 on the example whose local address cannot be translated.\<close>

theorem Dial_local_address_error_witness:
  "fst (Dial untranslatable_env (Context 0) alice_addr ''QmAlice'' example_machine) =
     Inl (errorString ''unexpected address'')
   \<and> sessions (snd (Dial untranslatable_env (Context 0) alice_addr ''QmAlice''
        example_machine)) = [alice_session]"
proof -
  have 1: "DialArgs untranslatable_env alice_addr = Inr (''udp4'', ''127.0.0.1:4001'')"
    by (simp add: untranslatable_env_def example_env_def)
  have 2: "GetConnForAddr untranslatable_env ''udp4'' (connManager (this example_machine))
             (os example_machine) =
           ((UDPConn (Some 0), None), \<lparr>connIPv4 = UDPConn (Some 0), connIPv6 = nil\<rparr>, 1)"
    by (simp add: GetConnForAddr_def createConn_def untranslatable_env_def example_env_def
        example_machine_def empty_pool_def)
  have 3: "fromQuicMultiaddr untranslatable_env alice_addr = Inr (UDPAddr ''127.0.0.1:4001'')"
    by (simp add: untranslatable_env_def example_env_def)
  have 5: "quic_handshake untranslatable_env (Context 0) (UDPConn (Some 0))
             (UDPAddr ''127.0.0.1:4001'') ''127.0.0.1:4001'' quicConfig 1 =
           (Presented [[1]] (Inr alice_session), 1)"
    by (simp add: untranslatable_env_def example_env_def)
  have 6: "verifyPeerCertificate untranslatable_env ''QmAlice'' [[1]] None =
             (None, Some (PubKey [1]))"
    by (simp add: verifyPeerCertificate_def MatchesPublicKey_def untranslatable_env_def
        example_env_def)
  have 7: "toQuicMultiaddr untranslatable_env (LocalAddr alice_session) =
             Inl (errorString ''unexpected address'')"
    by (simp add: untranslatable_env_def example_env_def)
  from Dial_local_address_error [OF 1 2 3 example_load 5 6 7]
  show ?thesis by (simp add: example_machine_def)
qed

end
